theory Spec2Isabelle
  imports Main "HOL-Library.Word"
begin

section \<open>The ABI contract: \<^verbatim>\<open>src/zerver/ipc/dll_abi.h\<close>\<close>

subsection \<open>HTTP method enumeration\<close>

text \<open>
  \<^verbatim>\<open>typedef enum { HTTP_METHOD_GET = 0, ..., HTTP_METHOD_OPTIONS = 6, } HttpMethod;\<close>
  The enumeration is a datatype with one constructor per enumerator, in the order of the
  header; \<open>HttpMethod_value\<close> gives the integer each enumerator is declared with.
\<close>

datatype HttpMethod =
    HTTP_METHOD_GET
  | HTTP_METHOD_POST
  | HTTP_METHOD_PUT
  | HTTP_METHOD_PATCH
  | HTTP_METHOD_DELETE
  | HTTP_METHOD_HEAD
  | HTTP_METHOD_OPTIONS

fun HttpMethod_value :: "HttpMethod \<Rightarrow> int" where
  "HttpMethod_value HTTP_METHOD_GET = 0"
| "HttpMethod_value HTTP_METHOD_POST = 1"
| "HttpMethod_value HTTP_METHOD_PUT = 2"
| "HttpMethod_value HTTP_METHOD_PATCH = 3"
| "HttpMethod_value HTTP_METHOD_DELETE = 4"
| "HttpMethod_value HTTP_METHOD_HEAD = 5"
| "HttpMethod_value HTTP_METHOD_OPTIONS = 6"

subsection \<open>Pointers and the server adapter\<close>

text \<open>
  The header's static assertions fix the size of every pointer at 8 bytes, so a pointer
  value (data or function) is a 64-bit word and the null pointer is the word 0. A C
  \<^verbatim>\<open>int\<close> is a 32-bit word, read as two's complement by \<open>sint\<close>.
\<close>

type_synonym ptr = "64 word"
type_synonym c_int = "32 word"

abbreviation NULL :: ptr where
  "NULL \<equiv> 0"

text \<open>
  \<^verbatim>\<open>typedef struct { void* router; void* runtime_resources; AddRouteFn addRoute;
  SetStatusFn setStatus; SetHeaderFn setHeader; SetBodyFn setBody; } ServerAdapter;\<close>
  The bridge never calls through the four function pointers; it only reads and prints
  pointer values, so each field holds the pointer value itself.
\<close>

record ServerAdapter =
  router :: ptr
  runtime_resources :: ptr
  addRoute :: ptr
  setStatus :: ptr
  setHeader :: ptr
  setBody :: ptr

text \<open>
  The three lifecycle function-pointer types
  (\<^verbatim>\<open>FeatureInitFn\<close>, \<^verbatim>\<open>FeatureShutdownFn\<close>, \<^verbatim>\<open>FeatureVersionFn\<close>) are pointer values.
\<close>

type_synonym FeatureInitFn = ptr
type_synonym FeatureShutdownFn = ptr
type_synonym FeatureVersionFn = ptr

section \<open>The process state seen by the bridge\<close>

text \<open>
  A value of type \<^verbatim>\<open>const char*\<close> is either the address of a string literal of the
  bridge's own (the C expression \<^verbatim>\<open>"unknown"\<close>) or a pointer value received from
  elsewhere, which may be null.
\<close>

datatype char_ptr = Str_literal string | Str_addr ptr

text \<open>
  Everything that foreign code can read or write: the \<^verbatim>\<open>ServerAdapter\<close> objects and
  the NUL-terminated strings in memory, the plugin's private state \<open>'p\<close>, and the two
  output streams. \<open>adapters w a\<close> is the object at address \<open>a\<close> in state \<open>w\<close>, and
  \<open>None\<close> when \<open>a\<close> designates no \<^verbatim>\<open>ServerAdapter\<close> object; \<open>strings w p\<close> is the string
  that starts at address \<open>p\<close>, and \<open>None\<close> when no readable string starts there. A read
  through a pointer that designates nothing faults: the function that makes it does not
  return.
\<close>

datatype printf_arg = Arg_p ptr | Arg_d c_int | Arg_s char_ptr

type_synonym diag = "string \<times> printf_arg list"

record 'p world =
  adapters :: "ptr \<rightharpoonup> ServerAdapter"
  strings :: "ptr \<rightharpoonup> string"
  plugin :: 'p
  stdout_log :: "diag list"
  stderr_log :: "diag list"

text \<open>
  A call of \<^verbatim>\<open>printf\<close> or \<^verbatim>\<open>fprintf\<close> is recorded on its stream as the format string
  with the values of its arguments, one constructor per conversion the bridge uses
  (\<^verbatim>\<open>%p\<close>, \<^verbatim>\<open>%d\<close>, \<^verbatim>\<open>%s\<close>). The conversions \<^verbatim>\<open>%p\<close> and \<^verbatim>\<open>%d\<close> print the value
  they are given and read no memory.
\<close>

definition printf :: "string \<Rightarrow> printf_arg list \<Rightarrow> 'p world \<Rightarrow> 'p world" where
  "printf fmt args w = w\<lparr>stdout_log := stdout_log w @ [(fmt, args)]\<rparr>"

definition fprintf_stderr :: "string \<Rightarrow> printf_arg list \<Rightarrow> 'p world \<Rightarrow> 'p world" where
  "fprintf_stderr fmt args w = w\<lparr>stderr_log := stderr_log w @ [(fmt, args)]\<rparr>"

text \<open>
  The conversion \<^verbatim>\<open>%s\<close> reads the bytes at its argument up to the terminating NUL. The
  bridge's own literals are always readable; for a null argument the C library prints a
  placeholder and reads nothing; any other address must hold a string. A \<^verbatim>\<open>printf\<close>
  with one \<^verbatim>\<open>%s\<close> argument therefore returns only when that argument is readable.
\<close>

fun readable_string :: "'p world \<Rightarrow> char_ptr \<Rightarrow> bool" where
  "readable_string w (Str_literal s) = True"
| "readable_string w (Str_addr p) =
     (if p = NULL then True else (case strings w p of None \<Rightarrow> False | Some s \<Rightarrow> True))"

definition printf_s :: "string \<Rightarrow> char_ptr \<Rightarrow> 'p world \<Rightarrow> 'p world option" where
  "printf_s fmt s w = (if readable_string w s then Some (printf fmt [Arg_s s] w) else None)"

subsection \<open>Loaded code and indirect calls\<close>

text \<open>
  The code loaded into the process is a parameter of the bridge: for every address, what
  happens when that address is called with the signature of \<^verbatim>\<open>FeatureInitFn\<close>,
  \<^verbatim>\<open>FeatureShutdownFn\<close> or \<^verbatim>\<open>FeatureVersionFn\<close>. A call yields \<open>None\<close> when it does
  not return to its caller (it loops, or the address holds no such function), and
  otherwise the returned value with the state the callee leaves behind.
\<close>

record 'p image =
  run_init :: "ptr \<Rightarrow> ptr \<Rightarrow> 'p world \<Rightarrow> (c_int \<times> 'p world) option"
  run_shutdown :: "ptr \<Rightarrow> 'p world \<Rightarrow> 'p world option"
  run_version :: "ptr \<Rightarrow> 'p world \<Rightarrow> (char_ptr \<times> 'p world) option"

text \<open>
  Every call the bridge makes through a function pointer is recorded with the callee's
  address and the arguments passed. The record is kept beside the state, out of the
  callee's reach, so that it counts the bridge's invocations and nothing else.
\<close>

datatype call = Call_init ptr ptr | Call_shutdown ptr | Call_version ptr

definition call_init ::
  "'p image \<Rightarrow> FeatureInitFn \<Rightarrow> ptr \<Rightarrow> 'p world \<Rightarrow> (c_int \<times> 'p world \<times> call list) option" where
  "call_init I f a w =
     (case run_init I f a w of
        None \<Rightarrow> None
      | Some (r, w') \<Rightarrow> Some (r, w', [Call_init f a]))"

definition call_shutdown ::
  "'p image \<Rightarrow> FeatureShutdownFn \<Rightarrow> 'p world \<Rightarrow> (unit \<times> 'p world \<times> call list) option" where
  "call_shutdown I f w =
     (case run_shutdown I f w of
        None \<Rightarrow> None
      | Some w' \<Rightarrow> Some ((), w', [Call_shutdown f]))"

definition call_version ::
  "'p image \<Rightarrow> FeatureVersionFn \<Rightarrow> 'p world \<Rightarrow> (char_ptr \<times> 'p world \<times> call list) option" where
  "call_version I f w =
     (case run_version I f w of
        None \<Rightarrow> None
      | Some (v, w') \<Rightarrow> Some (v, w', [Call_version f]))"

section \<open>The host bridge: \<^verbatim>\<open>src/zupervisor/dll_c_bridge.c\<close>\<close>

text \<open>
  Each bridge function takes the loaded code and the state at entry, and yields \<open>None\<close>
  when it does not return (a callee does not return, or a read faults), or its return
  value, the state at exit and the calls it made through function pointers, in order.
\<close>

definition dll_bridge_call_init ::
  "'p image \<Rightarrow> FeatureInitFn \<Rightarrow> ptr \<Rightarrow> 'p world \<Rightarrow> (c_int \<times> 'p world \<times> call list) option" where
  "dll_bridge_call_init I init_fn adapter w =
     (if init_fn = NULL then
        Some (- 1, fprintf_stderr ''[dll_c_bridge] Error: init_fn is NULL\<newline>'' [] w, [])
      else if adapter = NULL then
        Some (- 1, fprintf_stderr ''[dll_c_bridge] Error: adapter is NULL\<newline>'' [] w, [])
      else
        let w1 = printf ''[dll_c_bridge] Calling featureInit through C bridge\<newline>'' [] w
        in case adapters w1 adapter of
             None \<Rightarrow> None
           | Some a1 \<Rightarrow>
               let w2 = printf ''[dll_c_bridge] adapter->router = %p\<newline>''
                          [Arg_p (router a1)] w1
               in case adapters w2 adapter of
                    None \<Rightarrow> None
                  | Some a2 \<Rightarrow>
                      let w3 = printf ''[dll_c_bridge] adapter->addRoute = %p\<newline>''
                                 [Arg_p (addRoute a2)] w2
                      in case call_init I init_fn adapter w3 of
                           None \<Rightarrow> None
                         | Some (result, w4, calls) \<Rightarrow>
                             Some (result,
                                   printf ''[dll_c_bridge] featureInit returned: %d\<newline>''
                                     [Arg_d result] w4,
                                   calls))"

definition dll_bridge_call_shutdown ::
  "'p image \<Rightarrow> FeatureShutdownFn \<Rightarrow> 'p world \<Rightarrow> (unit \<times> 'p world \<times> call list) option" where
  "dll_bridge_call_shutdown I shutdown_fn w =
     (if shutdown_fn = NULL then
        Some ((), fprintf_stderr ''[dll_c_bridge] Error: shutdown_fn is NULL\<newline>'' [] w, [])
      else
        let w1 = printf ''[dll_c_bridge] Calling featureShutdown through C bridge\<newline>'' [] w
        in call_shutdown I shutdown_fn w1)"

definition dll_bridge_call_version ::
  "'p image \<Rightarrow> FeatureVersionFn \<Rightarrow> 'p world \<Rightarrow> (char_ptr \<times> 'p world \<times> call list) option" where
  "dll_bridge_call_version I version_fn w =
     (if version_fn = NULL then
        Some (Str_literal ''unknown'',
              fprintf_stderr ''[dll_c_bridge] Error: version_fn is NULL\<newline>'' [] w, [])
      else
        let w1 = printf ''[dll_c_bridge] Calling featureVersion through C bridge\<newline>'' [] w
        in case call_version I version_fn w1 of
             None \<Rightarrow> None
           | Some (version, w2, calls) \<Rightarrow>
               (case printf_s ''[dll_c_bridge] featureVersion returned: %s\<newline>'' version w2 of
                  None \<Rightarrow> None
                | Some w3 \<Rightarrow> Some (version, w3, calls)))"

subsection \<open>The state in which the plugin is entered\<close>

text \<open>
  Before it calls into the plugin, each bridge function writes its trace lines to the
  standard output and changes nothing else. These are the states in which
  \<^verbatim>\<open>init_fn(adapter)\<close>, \<^verbatim>\<open>shutdown_fn()\<close> and \<^verbatim>\<open>version_fn()\<close> are entered when the
  bridge is called in state \<open>w\<close>; for \<^verbatim>\<open>init_fn\<close>, \<open>ad\<close> is the object the adapter
  pointer designates.
\<close>

definition init_entry :: "ServerAdapter \<Rightarrow> 'p world \<Rightarrow> 'p world" where
  "init_entry ad w =
     printf ''[dll_c_bridge] adapter->addRoute = %p\<newline>'' [Arg_p (addRoute ad)]
       (printf ''[dll_c_bridge] adapter->router = %p\<newline>'' [Arg_p (router ad)]
          (printf ''[dll_c_bridge] Calling featureInit through C bridge\<newline>'' [] w))"

definition shutdown_entry :: "'p world \<Rightarrow> 'p world" where
  "shutdown_entry w = printf ''[dll_c_bridge] Calling featureShutdown through C bridge\<newline>'' [] w"

definition version_entry :: "'p world \<Rightarrow> 'p world" where
  "version_entry w = printf ''[dll_c_bridge] Calling featureVersion through C bridge\<newline>'' [] w"

section \<open>A stub plugin\<close>

text \<open>
  Test fixtures: three init functions that return 0, 1 and -1, a shutdown function and
  three version functions (one returns the address of a string, one the null pointer,
  one an address where no string is). The stub counts its own entries and keeps the
  adapter pointer it was last given; any other address holds no function, and a call to
  it does not return. In the test state one adapter object is at \<open>0x7000\<close> and one
  string at \<open>0x5000\<close>; nothing is at \<open>0x9000\<close> or \<open>0x6000\<close>.
\<close>

record stub_state =
  init_count :: nat
  init_arg :: ptr
  shutdown_count :: nat

definition stub_enter_init :: "ptr \<Rightarrow> stub_state world \<Rightarrow> stub_state world" where
  "stub_enter_init a w = w\<lparr>plugin := (plugin w)\<lparr>init_count := init_count (plugin w) + 1, init_arg := a\<rparr>\<rparr>"

definition stub :: "stub_state image" where
  "stub = \<lparr>
     run_init = (\<lambda>f a w.
       if f = 0x1000 then Some (0, stub_enter_init a w)
       else if f = 0x1008 then Some (1, stub_enter_init a w)
       else if f = 0x1010 then Some (- 1, stub_enter_init a w)
       else None),
     run_shutdown = (\<lambda>f w.
       if f = 0x2000 then Some (w\<lparr>plugin := (plugin w)\<lparr>shutdown_count := shutdown_count (plugin w) + 1\<rparr>\<rparr>)
       else None),
     run_version = (\<lambda>f w.
       if f = 0x3000 then Some (Str_addr 0x5000, w)
       else if f = 0x3008 then Some (Str_addr NULL, w)
       else if f = 0x3010 then Some (Str_addr 0x6000, w)
       else None)\<rparr>"

definition test_adapter :: ServerAdapter where
  "test_adapter = \<lparr>router = 0x7100, runtime_resources = 0x7200, addRoute = 0x4000,
     setStatus = 0x4008, setHeader = 0x4010, setBody = 0x4018\<rparr>"

definition test_world :: "stub_state world" where
  "test_world = \<lparr>
     adapters = (\<lambda>p. if p = 0x7000 then Some test_adapter else None),
     strings = (\<lambda>p. if p = 0x5000 then Some ''1.0.0'' else None),
     plugin = \<lparr>init_count = 0, init_arg = NULL, shutdown_count = 0\<rparr>,
     stdout_log = [],
     stderr_log = []\<rparr>"

section \<open>The bridge functions, branch by branch\<close>

lemma init_present:
  assumes "init_fn \<noteq> NULL" and "adapter \<noteq> NULL" and "adapters w adapter = Some ad"
  shows "dll_bridge_call_init I init_fn adapter w =
     (case run_init I init_fn adapter (init_entry ad w) of
        None \<Rightarrow> None
      | Some (r, w1) \<Rightarrow>
          Some (r, printf ''[dll_c_bridge] featureInit returned: %d\<newline>'' [Arg_d r] w1,
                [Call_init init_fn adapter]))"
  using assms
  by (simp add: dll_bridge_call_init_def call_init_def init_entry_def printf_def Let_def
      split: option.splits)

lemma init_dangling:
  assumes "init_fn \<noteq> NULL" and "adapter \<noteq> NULL" and "adapters w adapter = None"
  shows "dll_bridge_call_init I init_fn adapter w = None"
  using assms
  by (simp add: dll_bridge_call_init_def printf_def Let_def)

lemma init_absent:
  "dll_bridge_call_init I NULL adapter w =
     Some (- 1, fprintf_stderr ''[dll_c_bridge] Error: init_fn is NULL\<newline>'' [] w, [])"
  by (simp add: dll_bridge_call_init_def)

lemma init_adapter_absent:
  "init_fn \<noteq> NULL \<Longrightarrow> dll_bridge_call_init I init_fn NULL w =
     Some (- 1, fprintf_stderr ''[dll_c_bridge] Error: adapter is NULL\<newline>'' [] w, [])"
  by (simp add: dll_bridge_call_init_def)

lemma shutdown_present:
  "shutdown_fn \<noteq> NULL \<Longrightarrow> dll_bridge_call_shutdown I shutdown_fn w =
     (case run_shutdown I shutdown_fn (shutdown_entry w) of
        None \<Rightarrow> None
      | Some w1 \<Rightarrow> Some ((), w1, [Call_shutdown shutdown_fn]))"
  by (simp add: dll_bridge_call_shutdown_def call_shutdown_def shutdown_entry_def)

lemma version_present:
  "version_fn \<noteq> NULL \<Longrightarrow> dll_bridge_call_version I version_fn w =
     (case run_version I version_fn (version_entry w) of
        None \<Rightarrow> None
      | Some (v, w1) \<Rightarrow>
          if readable_string w1 v then
            Some (v, printf ''[dll_c_bridge] featureVersion returned: %s\<newline>'' [Arg_s v] w1,
                  [Call_version version_fn])
          else None)"
  by (simp add: dll_bridge_call_version_def call_version_def version_entry_def printf_s_def
      split: option.splits)

lemma sint_minus_one: "sint (- 1 :: c_int) < 0"
  by simp

lemma adapters_printf: "adapters (printf fmt args w) = adapters w"
  by (simp add: printf_def)

lemma adapters_fprintf_stderr: "adapters (fprintf_stderr fmt args w) = adapters w"
  by (simp add: fprintf_stderr_def)

lemma adapters_init_entry: "adapters (init_entry ad w) = adapters w"
  by (simp add: init_entry_def adapters_printf)

section \<open>Enumeration stability\<close>

text \<open>
  C6. The \<^verbatim>\<open>HttpMethod\<close> enumeration has exactly the seven members GET, POST, PUT, PATCH,
  DELETE, HEAD, OPTIONS, and their integer values are 0, 1, 2, 3, 4, 5, 6 in that order.
\<close>

theorem HttpMethod_values:
  "HttpMethod_value HTTP_METHOD_GET = 0 \<and>
   HttpMethod_value HTTP_METHOD_POST = 1 \<and>
   HttpMethod_value HTTP_METHOD_PUT = 2 \<and>
   HttpMethod_value HTTP_METHOD_PATCH = 3 \<and>
   HttpMethod_value HTTP_METHOD_DELETE = 4 \<and>
   HttpMethod_value HTTP_METHOD_HEAD = 5 \<and>
   HttpMethod_value HTTP_METHOD_OPTIONS = 6 \<and>
   (UNIV :: HttpMethod set) =
     {HTTP_METHOD_GET, HTTP_METHOD_POST, HTTP_METHOD_PUT, HTTP_METHOD_PATCH,
      HTTP_METHOD_DELETE, HTTP_METHOD_HEAD, HTTP_METHOD_OPTIONS} \<and>
   card (UNIV :: HttpMethod set) = 7"
proof -
  have U: "(UNIV :: HttpMethod set) =
     {HTTP_METHOD_GET, HTTP_METHOD_POST, HTTP_METHOD_PUT, HTTP_METHOD_PATCH,
      HTTP_METHOD_DELETE, HTTP_METHOD_HEAD, HTTP_METHOD_OPTIONS}"
  proof
    show "(UNIV :: HttpMethod set) \<subseteq>
     {HTTP_METHOD_GET, HTTP_METHOD_POST, HTTP_METHOD_PUT, HTTP_METHOD_PATCH,
      HTTP_METHOD_DELETE, HTTP_METHOD_HEAD, HTTP_METHOD_OPTIONS}"
    proof
      fix m :: HttpMethod
      show "m \<in> {HTTP_METHOD_GET, HTTP_METHOD_POST, HTTP_METHOD_PUT, HTTP_METHOD_PATCH,
        HTTP_METHOD_DELETE, HTTP_METHOD_HEAD, HTTP_METHOD_OPTIONS}"
        by (cases m) simp_all
    qed
  qed simp
  have "card (UNIV :: HttpMethod set) = 7"
    unfolding U by simp
  with U show ?thesis by simp
qed

section \<open>Initialisation\<close>

text \<open>
  C1, as the code has it. Before it calls \<^verbatim>\<open>init_fn\<close>, the bridge reads
  \<^verbatim>\<open>adapter->router\<close> and \<^verbatim>\<open>adapter->addRoute\<close> for its trace. A non-null adapter
  pointer that designates no object makes that read fault: the bridge does not return
  and \<^verbatim>\<open>init_fn\<close> is never called, although it would have returned.
\<close>

theorem dll_bridge_call_init_dangling_adapter:
  "(0x1000 :: ptr) \<noteq> NULL \<and> (0x9000 :: ptr) \<noteq> NULL \<and>
   run_init stub 0x1000 0x9000 test_world = Some (0, stub_enter_init 0x9000 test_world) \<and>
   dll_bridge_call_init stub 0x1000 0x9000 test_world = None"
proof -
  have "adapters test_world 0x9000 = None"
    by (simp add: test_world_def)
  then have "dll_bridge_call_init stub 0x1000 0x9000 test_world = None"
    by (simp add: init_dangling)
  then show ?thesis
    by (simp add: stub_def)
qed

text \<open>
  C1, amended. When the init function pointer is non-null and the adapter pointer is
  non-null and designates a \<^verbatim>\<open>ServerAdapter\<close> object, \<^verbatim>\<open>dll_bridge_call_init\<close> calls
  \<^verbatim>\<open>init_fn\<close> with the very adapter pointer it was given, in the caller's state after the
  trace lines. If that call returns \<open>r\<close>, the bridge returns exactly \<open>r\<close>, its only call
  through a function pointer is that one call of \<^verbatim>\<open>init_fn(adapter)\<close>, and the state is
  the one the callee left with one more trace line; if that call does not return, neither
  does the bridge.
\<close>

theorem dll_bridge_call_init_invokes_once:
  assumes "init_fn \<noteq> NULL" and "adapter \<noteq> NULL" and "adapters w adapter = Some ad"
  shows "case run_init I init_fn adapter (init_entry ad w) of
           None \<Rightarrow> dll_bridge_call_init I init_fn adapter w = None
         | Some (r, w1) \<Rightarrow>
             dll_bridge_call_init I init_fn adapter w =
               Some (r, printf ''[dll_c_bridge] featureInit returned: %d\<newline>'' [Arg_d r] w1,
                     [Call_init init_fn adapter])"
  using assms by (simp add: init_present split: option.splits)

theorem dll_bridge_call_init_invokes_once_witness:
  "(0x1008 :: ptr) \<noteq> NULL \<and> (0x7000 :: ptr) \<noteq> NULL \<and>
   adapters test_world 0x7000 = Some test_adapter \<and>
   (\<exists>w'. dll_bridge_call_init stub 0x1008 0x7000 test_world =
            Some (1, w', [Call_init 0x1008 0x7000]) \<and>
          init_count (plugin w') = 1 \<and> init_arg (plugin w') = 0x7000)"
proof -
  have f: "(0x1008 :: ptr) \<noteq> NULL" and a: "(0x7000 :: ptr) \<noteq> NULL" by simp_all
  have ad: "adapters test_world 0x7000 = Some test_adapter"
    by (simp add: test_world_def)
  from dll_bridge_call_init_invokes_once [OF f a ad, of stub] ad
  show ?thesis
    by (auto simp add: stub_def stub_enter_init_def init_entry_def printf_def test_world_def)
qed

text \<open>
  C2. When the init function pointer is null or the adapter pointer is null,
  \<^verbatim>\<open>dll_bridge_call_init\<close> returns a negative value, makes no call through a function
  pointer, and changes nothing but the standard error stream, which gets one line.
\<close>

theorem dll_bridge_call_init_absent_sentinel:
  assumes "init_fn = NULL \<or> adapter = NULL"
  shows "\<exists>r d. dll_bridge_call_init I init_fn adapter w =
                 Some (r, w\<lparr>stderr_log := stderr_log w @ [d]\<rparr>, []) \<and> sint r < 0"
proof (cases "init_fn = NULL")
  case True
  then have "dll_bridge_call_init I init_fn adapter w =
      Some (- 1, w\<lparr>stderr_log := stderr_log w @ [(''[dll_c_bridge] Error: init_fn is NULL\<newline>'', [])]\<rparr>, [])"
    by (simp add: init_absent fprintf_stderr_def)
  with sint_minus_one show ?thesis by blast
next
  case False
  with assms have "adapter = NULL" by simp
  with False have "dll_bridge_call_init I init_fn adapter w =
      Some (- 1, w\<lparr>stderr_log := stderr_log w @ [(''[dll_c_bridge] Error: adapter is NULL\<newline>'', [])]\<rparr>, [])"
    by (simp add: init_adapter_absent fprintf_stderr_def)
  with sint_minus_one show ?thesis by blast
qed

theorem dll_bridge_call_init_absent_sentinel_witness:
  "(\<exists>w'. dll_bridge_call_init stub NULL 0x7000 test_world = Some (- 1, w', []) \<and>
          init_count (plugin w') = 0 \<and> stdout_log w' = [] \<and> length (stderr_log w') = 1) \<and>
   (\<exists>w'. dll_bridge_call_init stub 0x1000 NULL test_world = Some (- 1, w', []) \<and>
          init_count (plugin w') = 0 \<and> stdout_log w' = [] \<and> length (stderr_log w') = 1) \<and>
   (\<exists>w'. dll_bridge_call_init stub NULL NULL test_world = Some (- 1, w', []) \<and>
          init_count (plugin w') = 0 \<and> stdout_log w' = [] \<and> length (stderr_log w') = 1)"
proof -
  have a: "(NULL :: ptr) = NULL \<or> (0x7000 :: ptr) = NULL" by simp
  have b: "(0x1000 :: ptr) = NULL \<or> (NULL :: ptr) = NULL" by simp
  have c: "(NULL :: ptr) = NULL \<or> (NULL :: ptr) = NULL" by simp
  note A = dll_bridge_call_init_absent_sentinel [OF a, of stub test_world]
  note B = dll_bridge_call_init_absent_sentinel [OF b, of stub test_world]
  note C = dll_bridge_call_init_absent_sentinel [OF c, of stub test_world]
  have v: "dll_bridge_call_init stub NULL a test_world = Some (r, w', cs) \<Longrightarrow> r = - 1" for a r w' cs
    by (simp add: init_absent)
  have v': "dll_bridge_call_init stub 0x1000 NULL test_world = Some (r, w', cs) \<Longrightarrow> r = - 1" for r w' cs
    by (simp add: init_adapter_absent)
  from A obtain r1 d1 where 1: "dll_bridge_call_init stub NULL 0x7000 test_world =
      Some (r1, test_world\<lparr>stderr_log := stderr_log test_world @ [d1]\<rparr>, [])" by blast
  from B obtain r2 d2 where 2: "dll_bridge_call_init stub 0x1000 NULL test_world =
      Some (r2, test_world\<lparr>stderr_log := stderr_log test_world @ [d2]\<rparr>, [])" by blast
  from C obtain r3 d3 where 3: "dll_bridge_call_init stub NULL NULL test_world =
      Some (r3, test_world\<lparr>stderr_log := stderr_log test_world @ [d3]\<rparr>, [])" by blast
  from 1 v have "r1 = - 1" by blast
  moreover from 2 v' have "r2 = - 1" by blast
  moreover from 3 v have "r3 = - 1" by blast
  ultimately show ?thesis using 1 2 3 by (simp add: test_world_def)
qed

text \<open>
  C8. The value returned for a missing entry point is exactly -1, and a plugin can return
  the same value: when a present init function, called with a present adapter that
  designates an object, returns -1, the bridge returns -1, the very value it returns when
  the init function is absent and when the adapter is absent. The return value alone does
  not tell the cases apart.
\<close>

theorem dll_bridge_call_init_sentinel_collides:
  assumes "init_fn \<noteq> NULL" and "adapter \<noteq> NULL" and "adapters w adapter = Some ad"
    and "run_init I init_fn adapter (init_entry ad w) = Some (- 1, w1)"
  shows "\<exists>w' wf wa.
           dll_bridge_call_init I init_fn adapter w = Some (- 1, w', [Call_init init_fn adapter]) \<and>
           dll_bridge_call_init I NULL adapter w = Some (- 1, wf, []) \<and>
           dll_bridge_call_init I init_fn NULL w = Some (- 1, wa, [])"
  using assms by (simp add: init_present init_absent init_adapter_absent)

theorem dll_bridge_call_init_sentinel_collides_witness:
  "(0x1010 :: ptr) \<noteq> NULL \<and> (0x7000 :: ptr) \<noteq> NULL \<and>
   adapters test_world 0x7000 = Some test_adapter \<and>
   run_init stub 0x1010 0x7000 (init_entry test_adapter test_world) =
     Some (- 1, stub_enter_init 0x7000 (init_entry test_adapter test_world)) \<and>
   map_option fst (dll_bridge_call_init stub 0x1010 0x7000 test_world) = Some (- 1) \<and>
   map_option fst (dll_bridge_call_init stub NULL 0x7000 test_world) = Some (- 1) \<and>
   map_option fst (dll_bridge_call_init stub 0x1010 NULL test_world) = Some (- 1)"
proof -
  have f: "(0x1010 :: ptr) \<noteq> NULL" and a: "(0x7000 :: ptr) \<noteq> NULL" by simp_all
  have ad: "adapters test_world 0x7000 = Some test_adapter"
    by (simp add: test_world_def)
  have r: "run_init stub 0x1010 0x7000 (init_entry test_adapter test_world) =
     Some (- 1, stub_enter_init 0x7000 (init_entry test_adapter test_world))"
    by (simp add: stub_def)
  from dll_bridge_call_init_sentinel_collides [OF f a ad r] f a ad r
  show ?thesis by auto
qed

text \<open>
  C10. \<^verbatim>\<open>dll_bridge_call_init\<close> never writes through the adapter pointer: whenever it
  returns, and the init function (if it was called) left the adapter object as it found
  it, the object at the adapter pointer, and so each of its six fields, is what it was
  when the bridge was called. This holds for every pair of arguments, null ones included.
\<close>

theorem dll_bridge_call_init_adapter_frame:
  assumes ret: "dll_bridge_call_init I init_fn adapter w = Some (r, w', cs)"
    and frame: "\<forall>ad r1 w1. adapters w adapter = Some ad \<longrightarrow>
                  run_init I init_fn adapter (init_entry ad w) = Some (r1, w1) \<longrightarrow>
                  adapters w1 adapter = adapters (init_entry ad w) adapter"
  shows "adapters w' adapter = adapters w adapter \<and>
         map_option router (adapters w' adapter) = map_option router (adapters w adapter) \<and>
         map_option runtime_resources (adapters w' adapter) =
           map_option runtime_resources (adapters w adapter) \<and>
         map_option addRoute (adapters w' adapter) = map_option addRoute (adapters w adapter) \<and>
         map_option setStatus (adapters w' adapter) = map_option setStatus (adapters w adapter) \<and>
         map_option setHeader (adapters w' adapter) = map_option setHeader (adapters w adapter) \<and>
         map_option setBody (adapters w' adapter) = map_option setBody (adapters w adapter)"
proof -
  have "adapters w' adapter = adapters w adapter"
  proof (cases "init_fn = NULL")
    case True
    with ret show ?thesis
      by (auto simp add: init_absent adapters_fprintf_stderr)
  next
    case f: False
    show ?thesis
    proof (cases "adapter = NULL")
      case True
      with f ret show ?thesis
        by (auto simp add: init_adapter_absent adapters_fprintf_stderr)
    next
      case a: False
      show ?thesis
      proof (cases "adapters w adapter")
        case None
        with f a ret show ?thesis by (simp add: init_dangling)
      next
        case (Some ad)
        from f a Some ret obtain w1 where
          run: "run_init I init_fn adapter (init_entry ad w) = Some (r, w1)" and
          w': "w' = printf ''[dll_c_bridge] featureInit returned: %d\<newline>'' [Arg_d r] w1"
          by (auto simp add: init_present split: option.splits)
        from frame Some run have "adapters w1 adapter = adapters (init_entry ad w) adapter"
          by blast
        with w' show ?thesis
          by (simp add: adapters_printf adapters_init_entry)
      qed
    qed
  qed
  then show ?thesis by simp
qed

theorem dll_bridge_call_init_adapter_frame_witness:
  "\<exists>w'. dll_bridge_call_init stub 0x1000 0x7000 test_world =
           Some (0, w', [Call_init 0x1000 0x7000]) \<and>
         adapters test_world 0x7000 = Some test_adapter \<and>
         adapters w' 0x7000 = Some test_adapter"
proof -
  have ad: "adapters test_world 0x7000 = Some test_adapter"
    by (simp add: test_world_def)
  have fr: "\<forall>ad r1 w1. adapters test_world 0x7000 = Some ad \<longrightarrow>
        run_init stub 0x1000 0x7000 (init_entry ad test_world) = Some (r1, w1) \<longrightarrow>
        adapters w1 0x7000 = adapters (init_entry ad test_world) 0x7000"
    by (auto simp add: stub_def stub_enter_init_def)
  have "dll_bridge_call_init stub 0x1000 0x7000 test_world =
      Some (0, printf ''[dll_c_bridge] featureInit returned: %d\<newline>'' [Arg_d 0]
                 (stub_enter_init 0x7000 (init_entry test_adapter test_world)),
            [Call_init 0x1000 0x7000])"
    using ad by (simp add: init_present stub_def)
  then obtain w' where
    ret: "dll_bridge_call_init stub 0x1000 0x7000 test_world = Some (0, w', [Call_init 0x1000 0x7000])"
    by blast
  from dll_bridge_call_init_adapter_frame [OF ret fr]
  have "adapters w' 0x7000 = adapters test_world 0x7000"
    by simp
  with ad ret show ?thesis by simp
qed

section \<open>Shutdown\<close>

text \<open>
  C4. With a null shutdown function pointer, \<^verbatim>\<open>dll_bridge_call_shutdown\<close> returns
  normally, makes no call through a function pointer, and its only effect is one line on
  the standard error stream.
\<close>

theorem dll_bridge_call_shutdown_absent:
  assumes "shutdown_fn = NULL"
  shows "dll_bridge_call_shutdown I shutdown_fn w =
           Some ((), fprintf_stderr ''[dll_c_bridge] Error: shutdown_fn is NULL\<newline>'' [] w, [])"
  using assms by (simp add: dll_bridge_call_shutdown_def)

theorem dll_bridge_call_shutdown_absent_witness:
  "(NULL :: ptr) = NULL \<and>
   (\<exists>w'. dll_bridge_call_shutdown stub NULL test_world = Some ((), w', []) \<and>
          shutdown_count (plugin w') = 0 \<and> stdout_log w' = [] \<and> length (stderr_log w') = 1)"
proof -
  have n: "(NULL :: ptr) = NULL" by simp
  from dll_bridge_call_shutdown_absent [OF n, of stub test_world]
  show ?thesis by (auto simp add: test_world_def fprintf_stderr_def)
qed

text \<open>
  C5. With a non-null shutdown function pointer, \<^verbatim>\<open>dll_bridge_call_shutdown\<close> calls that
  function, after one trace line. If the call returns, the bridge returns in the state
  the callee left, that call is the only call it made through a function pointer, and
  its result carries no value (the unit value stands for \<^verbatim>\<open>void\<close>); if the call does
  not return, neither does the bridge.
\<close>

theorem dll_bridge_call_shutdown_invokes_once:
  assumes "shutdown_fn \<noteq> NULL"
  shows "case run_shutdown I shutdown_fn (shutdown_entry w) of
           None \<Rightarrow> dll_bridge_call_shutdown I shutdown_fn w = None
         | Some w1 \<Rightarrow>
             dll_bridge_call_shutdown I shutdown_fn w = Some ((), w1, [Call_shutdown shutdown_fn])"
  using assms by (simp add: shutdown_present split: option.splits)

theorem dll_bridge_call_shutdown_invokes_once_witness:
  "(0x2000 :: ptr) \<noteq> NULL \<and>
   (\<exists>w'. dll_bridge_call_shutdown stub 0x2000 test_world = Some ((), w', [Call_shutdown 0x2000]) \<and>
          shutdown_count (plugin w') = 1)"
proof -
  have n: "(0x2000 :: ptr) \<noteq> NULL" by simp
  from dll_bridge_call_shutdown_invokes_once [OF n, of stub test_world]
  show ?thesis
    by (auto simp add: stub_def shutdown_entry_def printf_def test_world_def)
qed

section \<open>Version\<close>

text \<open>
  C3, as the code has it. Before it returns, the bridge passes the pointer that the
  version function returned to \<^verbatim>\<open>printf\<close> for a \<^verbatim>\<open>%s\<close>, which reads the bytes there. A
  present version function that returns a non-null address where no string is makes that
  read fault: the bridge does not return the pointer.
\<close>

theorem dll_bridge_call_version_unreadable_result:
  "(0x3010 :: ptr) \<noteq> NULL \<and>
   run_version stub 0x3010 (version_entry test_world) =
     Some (Str_addr 0x6000, version_entry test_world) \<and>
   dll_bridge_call_version stub 0x3010 test_world = None"
proof -
  have r: "run_version stub 0x3010 (version_entry test_world) =
     Some (Str_addr 0x6000, version_entry test_world)"
    by (simp add: stub_def)
  have "\<not> readable_string (version_entry test_world) (Str_addr 0x6000)"
    by (simp add: version_entry_def printf_def test_world_def)
  with r have "dll_bridge_call_version stub 0x3010 test_world = None"
    by (simp add: version_present)
  with r show ?thesis by simp
qed

text \<open>
  C3, amended. With a null version function pointer, \<^verbatim>\<open>dll_bridge_call_version\<close> returns
  the address of the string literal \<^verbatim>\<open>"unknown"\<close> and calls nothing. With a non-null one
  it calls the function once, after one trace line; when the pointer the function
  returned is null or designates a readable string, the bridge returns that pointer value
  unchanged, and the state it leaves is the callee's with one more trace line on the
  standard output, so the bridge neither copies nor modifies the string. When the call
  does not return, or the returned pointer is not readable, the bridge does not return.
\<close>

theorem dll_bridge_call_version_result:
  "if version_fn = NULL then
     dll_bridge_call_version I version_fn w =
       Some (Str_literal ''unknown'',
             fprintf_stderr ''[dll_c_bridge] Error: version_fn is NULL\<newline>'' [] w, [])
   else
     (case run_version I version_fn (version_entry w) of
        None \<Rightarrow> dll_bridge_call_version I version_fn w = None
      | Some (v, w1) \<Rightarrow>
          if readable_string w1 v then
            dll_bridge_call_version I version_fn w =
              Some (v, printf ''[dll_c_bridge] featureVersion returned: %s\<newline>'' [Arg_s v] w1,
                    [Call_version version_fn])
          else dll_bridge_call_version I version_fn w = None)"
proof (cases "version_fn = NULL")
  case True
  then show ?thesis
    by (simp add: dll_bridge_call_version_def)
next
  case False
  then show ?thesis
    by (simp add: version_present split: option.splits)
qed

theorem dll_bridge_call_version_result_witness:
  "(\<exists>w'. dll_bridge_call_version stub NULL test_world = Some (Str_literal ''unknown'', w', [])) \<and>
   (0x3000 :: ptr) \<noteq> NULL \<and>
   readable_string (version_entry test_world) (Str_addr 0x5000) \<and>
   (\<exists>w'. dll_bridge_call_version stub 0x3000 test_world =
            Some (Str_addr 0x5000, w', [Call_version 0x3000]) \<and>
          plugin w' = plugin test_world \<and> strings w' 0x5000 = Some ''1.0.0'')"
  using dll_bridge_call_version_result [of NULL stub test_world]
    dll_bridge_call_version_result [of "0x3000" stub test_world]
  by (auto simp add: stub_def version_entry_def printf_def fprintf_stderr_def test_world_def)

text \<open>
  C9. The \<^verbatim>\<open>"unknown"\<close> fallback is for an absent function pointer only. When a present
  version function returns the null pointer, \<^verbatim>\<open>dll_bridge_call_version\<close> returns that
  null pointer and not the literal; the null pointer is also what the last trace line
  passes to \<^verbatim>\<open>printf\<close> for its \<^verbatim>\<open>%s\<close>, which reads nothing for it.
\<close>

theorem dll_bridge_call_version_null_result:
  assumes "version_fn \<noteq> NULL"
    and "run_version I version_fn (version_entry w) = Some (Str_addr NULL, w1)"
  shows "dll_bridge_call_version I version_fn w =
           Some (Str_addr NULL,
                 printf ''[dll_c_bridge] featureVersion returned: %s\<newline>'' [Arg_s (Str_addr NULL)] w1,
                 [Call_version version_fn]) \<and>
         map_option fst (dll_bridge_call_version I version_fn w) \<noteq> Some (Str_literal ''unknown'')"
  using assms by (simp add: version_present)

theorem dll_bridge_call_version_null_result_witness:
  "(0x3008 :: ptr) \<noteq> NULL \<and>
   run_version stub 0x3008 (version_entry test_world) = Some (Str_addr NULL, version_entry test_world) \<and>
   map_option fst (dll_bridge_call_version stub 0x3008 test_world) = Some (Str_addr NULL)"
proof -
  have f: "(0x3008 :: ptr) \<noteq> NULL" by simp
  have r: "run_version stub 0x3008 (version_entry test_world) =
     Some (Str_addr NULL, version_entry test_world)"
    by (simp add: stub_def)
  from dll_bridge_call_version_null_result [OF f r] f r
  show ?thesis by simp
qed

end
